theory Spec2Isabelle
  imports Main
begin

section \<open>Data model\<close>

text \<open>
  The scan result is the object the accessibility engine returns. Its fields are read by
  \<open>generateSummary\<close>, \<open>generateJSONReport\<close> and the two \<open>generateHTMLReport\<close> functions.
  A category key that is absent from the object reads as \<open>undefined\<close> in JavaScript; it is
  \<open>None\<close> here, and a present array is \<open>Some xs\<close>.
\<close>

text \<open>
  The errors: the runtime's \<open>TypeError\<close>, and the kinds the specification names. The code
  defines no error class of its own.
\<close>

datatype error =
    TypeError string
  | InputShapeError string
  | NavigationError string
  | EngineLoadError string
  | IOError string

fun message :: "error \<Rightarrow> string" where
  "message (TypeError m) = m"
| "message (InputShapeError m) = m"
| "message (NavigationError m) = m"
| "message (EngineLoadError m) = m"
| "message (IOError m) = m"

text \<open>The \<open>impact\<close> property of a rule outcome: absent, \<open>null\<close>, or a string.\<close>

datatype impact_value = Undefined | Null | Str string

record node =
  target :: "string list"

record rule_outcome =
  id_rule :: string
  description :: string
  help_text :: string
  helpUrl :: string
  impact :: impact_value
  tags :: "string list"
  nodes :: "node list"

record scan_result =
  url :: string
  timestamp :: string
  testEngine_version :: string
  passes :: "rule_outcome list option"
  violations :: "rule_outcome list option"
  incomplete :: "rule_outcome list option"
  inapplicable :: "rule_outcome list option"

text \<open>
  A JavaScript number as far as the counters need it: a count, or \<open>NaN\<close>. Array lengths
  are below \<open>2 ^ 32\<close>, so sums of four lengths and counters of list elements are exact.
\<close>

datatype jsnum = Num nat | NaN

record summary =
  s_url :: string
  s_timestamp :: string
  s_browser :: string
  totalElements :: nat
  s_passes :: nat
  s_violations :: nat
  s_incomplete :: nat
  s_inapplicable :: nat
  violationsByImpact :: "string \<rightharpoonup> jsnum"

text \<open>The fields of the \<open>AccessibilityTester\<close> instance (\<open>this\<close>).\<close>

record viewport_size =
  width :: nat
  height :: nat

record tester =
  t_url :: string
  outputDir :: string
  browser :: string
  headed :: bool
  viewport :: viewport_size
  runOnly_values :: "string list option"
  t_timestamp :: string
  reportDir :: "string option"

section \<open>The summarizer\<close>

text \<open>The error of reading a property of \<open>undefined\<close>.\<close>

definition undefined_read :: "string \<Rightarrow> error" where
  "undefined_read p =
     TypeError (''Cannot read properties of undefined (reading '' @ [CHR 0x27] @ p @ [CHR 0x27] @ '')'')"

definition undefined_length :: error where
  "undefined_length = undefined_read ''length''"

definition impact_init :: "string \<rightharpoonup> jsnum" where
  "impact_init = map_of [(''critical'', Num 0), (''serious'', Num 0),
                         (''moderate'', Num 0), (''minor'', Num 0)]"

text \<open>
  \<open>obj[k]++\<close> on the counter object. An own numeric property is incremented. Any other
  key reads \<open>undefined\<close> or a property inherited from \<open>Object.prototype\<close>, which converts
  to \<open>NaN\<close>, and \<open>NaN + 1\<close> is stored as a new own property; only the inherited setter
  \<open>__proto__\<close> stores nothing when given a number.
\<close>

definition increment :: "(string \<rightharpoonup> jsnum) \<Rightarrow> string \<Rightarrow> (string \<rightharpoonup> jsnum)" where
  "increment m k =
     (if k = ''__proto__'' then m
      else m(k \<mapsto> (case m k of Some (Num n) \<Rightarrow> Num (n + 1) | _ \<Rightarrow> NaN)))"

text \<open>The body of the \<open>forEach\<close> callback: \<open>if (violation.impact) { ... ++ }\<close>.\<close>

definition truthy :: "impact_value \<Rightarrow> bool" where
  "truthy i = (case i of Str s \<Rightarrow> s \<noteq> [] | _ \<Rightarrow> False)"

definition count_impact :: "(string \<rightharpoonup> jsnum) \<Rightarrow> rule_outcome \<Rightarrow> (string \<rightharpoonup> jsnum)" where
  "count_impact m violation =
     (case impact violation of
        Str s \<Rightarrow> if s \<noteq> [] then increment m s else m
      | _ \<Rightarrow> m)"

definition generateSummary :: "tester \<Rightarrow> scan_result \<Rightarrow> error + summary" where
  "generateSummary this results =
     (case passes results of None \<Rightarrow> Inl undefined_length | Some ps \<Rightarrow>
      case violations results of None \<Rightarrow> Inl undefined_length | Some vs \<Rightarrow>
      case incomplete results of None \<Rightarrow> Inl undefined_length | Some ics \<Rightarrow>
      case inapplicable results of None \<Rightarrow> Inl undefined_length | Some ias \<Rightarrow>
        Inr \<lparr> s_url = url results,
              s_timestamp = timestamp results,
              s_browser = browser this,
              totalElements = length ps + length vs + length ics + length ias,
              s_passes = length ps,
              s_violations = length vs,
              s_incomplete = length ics,
              s_inapplicable = length ias,
              violationsByImpact = foldl count_impact impact_init vs \<rparr>)"

text \<open>The four impact levels the counter object is created with.\<close>

definition recognized :: "string list" where
  "recognized = [''critical'', ''serious'', ''moderate'', ''minor'']"

definition recognized_impact :: "rule_outcome \<Rightarrow> bool" where
  "recognized_impact v = (case impact v of Str s \<Rightarrow> s \<in> set recognized | _ \<Rightarrow> False)"

text \<open>The value of a counter as a number; keys that hold no count contribute nothing.\<close>

definition count_of :: "(string \<rightharpoonup> jsnum) \<Rightarrow> string \<Rightarrow> nat" where
  "count_of m k = (case m k of Some (Num n) \<Rightarrow> n | _ \<Rightarrow> 0)"

definition sum_recognized :: "(string \<rightharpoonup> jsnum) \<Rightarrow> nat" where
  "sum_recognized m = sum_list (map (count_of m) recognized)"

definition is_count :: "(string \<rightharpoonup> jsnum) \<Rightarrow> string \<Rightarrow> bool" where
  "is_count m k = (case m k of Some (Num n) \<Rightarrow> True | _ \<Rightarrow> False)"

text \<open>The invariant of the counter object: the four created keys always hold counts.\<close>

definition counts_ok :: "(string \<rightharpoonup> jsnum) \<Rightarrow> bool" where
  "counts_ok m = list_all (is_count m) recognized"

section \<open>The summarizer on inputs of any shape\<close>























section \<open>The host environment\<close>

text \<open>
  The report object of \<open>generateJSONReport\<close>: \<open>{ summary, results }\<close>.
\<close>

record report =
  r_summary :: summary
  r_results :: scan_result

text \<open>
  The calls the code makes to its collaborators: the file system, the browser automation
  driver and the accessibility engine. Each call either returns or throws.
\<close>

datatype call =
    Mkdir string
  | WriteFile string string
  | Launch string bool
  | NewContext viewport_size
  | NewPage
  | Goto string
  | Screenshot string
  | AddAxeScript
  | RunAxe "string list option"
  | InjectAxe
  | GetViolations "string list option"
  | Close
  | Remote
  | Url string
  | Analyze
  | DeleteSession

text \<open>
  Everything outside the repository is a parameter. The first group are functions of the
  JavaScript runtime and its libraries that have no effect: \<open>path.join\<close>,
  \<open>new URL(u).hostname\<close> (which throws on an invalid address),
  \<open>new Date(t).toLocaleString()\<close> (a function of the host's locale and time zone),
  \<open>toUpperCase\<close>, \<open>toLowerCase\<close>, the version string of the engine and
  \<open>JSON.stringify(v, null, 2)\<close>. The second group acts on the world \<open>'w\<close>: the
  clock \<open>new Date().toISOString()\<close>, the collaborator calls, and the values the engine
  hands back after a successful call.
\<close>

record 'w ext =
  path_join :: "string \<Rightarrow> string \<Rightarrow> string"
  hostname :: "string \<Rightarrow> error + string"
  toLocaleString :: "string \<Rightarrow> string"
  toUpperCase :: "string \<Rightarrow> string"
  toLowerCase :: "string \<Rightarrow> string"
  axe_version :: string
  stringify_report :: "report \<Rightarrow> string"
  stringify_results :: "scan_result \<Rightarrow> string"
  now :: "'w \<Rightarrow> string \<times> 'w"
  exec :: "call \<Rightarrow> 'w \<Rightarrow> error option \<times> 'w"
  axe_results :: "'w \<Rightarrow> scan_result"
  axe_violations :: "'w \<Rightarrow> rule_outcome list"

text \<open>
  The state a method runs in: the world, the calls made so far with their outcomes
  (\<open>None\<close> for a normal return) and the tester instance \<open>this\<close>.
\<close>

record 'w st =
  world :: 'w
  trace :: "(call \<times> error option) list"
  self :: tester

type_synonym ('w, 'a) prog = "'w st \<Rightarrow> (error + 'a) \<times> 'w st"

definition ret :: "'a \<Rightarrow> ('w, 'a) prog" where
  "ret v s = (Inr v, s)"

definition throw :: "error \<Rightarrow> ('w, 'a) prog" where
  "throw e s = (Inl e, s)"

definition bnd :: "('w, 'a) prog \<Rightarrow> ('a \<Rightarrow> ('w, 'b) prog) \<Rightarrow> ('w, 'b) prog" where
  "bnd m f s = (case m s of (Inl e, s') \<Rightarrow> (Inl e, s') | (Inr v, s') \<Rightarrow> f v s')"

definition try_catch :: "('w, 'a) prog \<Rightarrow> (error \<Rightarrow> ('w, 'a) prog) \<Rightarrow> ('w, 'a) prog" where
  "try_catch m h s = (case m s of (Inl e, s') \<Rightarrow> h e s' | (Inr v, s') \<Rightarrow> (Inr v, s'))"


definition await :: "'w ext \<Rightarrow> call \<Rightarrow> ('w, unit) prog" where
  "await x c s =
     (case exec x c (world s) of (r, w') \<Rightarrow>
        ((case r of None \<Rightarrow> Inr () | Some e \<Rightarrow> Inl e),
         s \<lparr> world := w', trace := trace s @ [(c, r)] \<rparr>))"

definition clock :: "'w ext \<Rightarrow> ('w, string) prog" where
  "clock x s = (case now x (world s) of (t, w') \<Rightarrow> (Inr t, s \<lparr> world := w' \<rparr>))"

definition lift :: "error + 'a \<Rightarrow> ('w, 'a) prog" where
  "lift r s = (r, s)"

definition get_self :: "('w, tester) prog" where
  "get_self s = (Inr (self s), s)"

definition set_self :: "(tester \<Rightarrow> tester) \<Rightarrow> ('w, unit) prog" where
  "set_self f s = (Inr (), s \<lparr> self := f (self s) \<rparr>)"

definition read_world :: "('w \<Rightarrow> 'a) \<Rightarrow> ('w, 'a) prog" where
  "read_world f s = (Inr (f (world s)), s)"

section \<open>Strings\<close>


definition check_box :: string where
  "check_box = [CHR 0xE2, CHR 0x9C, CHR 0x85]"

definition right_arrow :: string where
  "right_arrow = [CHR 0xE2, CHR 0x86, CHR 0x92]"

definition desktop_computer :: string where
  "desktop_computer = [CHR 0xF0, CHR 0x9F, CHR 0x96, CHR 0xA5, CHR 0xEF, CHR 0xB8, CHR 0x8F]"

text \<open>\<open>Array.prototype.join\<close>.\<close>

fun join :: "'a list \<Rightarrow> 'a list list \<Rightarrow> 'a list" where
  "join sep [] = []"
| "join sep [x] = x"
| "join sep (x # y # ys) = x @ sep @ join sep (y # ys)"

definition join_lines :: "string list \<Rightarrow> string" where
  "join_lines = join [CHR 0x0A]"

text \<open>\<open>Array.prototype.slice(b, e)\<close> for indices that are not negative.\<close>

definition slice :: "nat \<Rightarrow> nat \<Rightarrow> 'a list \<Rightarrow> 'a list" where
  "slice b e xs = take (e - b) (drop b xs)"

text \<open>The decimal text of a count, as a template literal inserts it.\<close>

definition digits :: string where
  "digits = ''0123456789''"

fun number_toString :: "nat \<Rightarrow> string" where
  "number_toString n =
     (if n < 10 then [digits ! n]
      else number_toString (n div 10) @ [digits ! (n mod 10)])"

declare number_toString.simps [simp del]

fun jsnum_toString :: "jsnum option \<Rightarrow> string" where
  "jsnum_toString None = ''undefined''"
| "jsnum_toString (Some NaN) = ''NaN''"
| "jsnum_toString (Some (Num n)) = number_toString n"

fun impact_toString :: "impact_value \<Rightarrow> string" where
  "impact_toString Undefined = ''undefined''"
| "impact_toString Null = ''null''"
| "impact_toString (Str s) = s"

section \<open>The HTML report of the Playwright tester\<close>

subsection \<open>The fixed text of the template\<close>

definition document_1 :: string where
  \<open>document_1 = join_lines
    [''<!DOCTYPE html>'',
     ''<html lang="en">'',
     ''<head>'',
     ''    <meta charset="UTF-8">'',
     ''    <meta name="viewport" content="width=device-width, initial-scale=1.0">'',
     ''    <title>Accessibility Report - '']\<close>

definition document_2 :: string where
  \<open>document_2 = join_lines
    [''</title>'',
     ''    <style>'',
     ''        * { margin: 0; padding: 0; box-sizing: border-box; }'',
     ''        body {'',
     ''            font-family: -apple-system, BlinkMacSystemFont, \'Segoe UI\', Roboto, Oxygen, Ubuntu, sans-serif;'',
     ''            line-height: 1.6;'',
     ''            color: #333;'',
     ''            background: #f5f5f5;'',
     ''        }'',
     ''        .container {'',
     ''            max-width: 1200px;'',
     ''            margin: 0 auto;'',
     ''            padding: 20px;'',
     ''        }'',
     ''        header {'',
     ''            background: linear-gradient(135deg, #667eea 0%, #764ba2 100%);'',
     ''            color: white;'',
     ''            padding: 30px 0;'',
     ''            margin-bottom: 30px;'',
     ''            border-radius: 10px;'',
     ''        }'',
     ''        h1 {'',
     ''            text-align: center;'',
     ''            font-size: 2.5em;'',
     ''            margin-bottom: 10px;'',
     ''        }'',
     ''        .header-info {'',
     ''            text-align: center;'',
     ''            opacity: 0.9;'',
     ''        }'',
     ''        .browser-info {'',
     ''            text-align: center;'',
     ''            margin-top: 10px;'',
     ''            font-size: 1.1em;'',
     ''        }'',
     ''        .summary {'',
     ''            display: grid;'',
     ''            grid-template-columns: repeat(auto-fit, minmax(200px, 1fr));'',
     ''            gap: 20px;'',
     ''            margin-bottom: 40px;'',
     ''        }'',
     ''        .stat-card {'',
     ''            background: white;'',
     ''            padding: 20px;'',
     ''            border-radius: 10px;'',
     ''            box-shadow: 0 2px 10px rgba(0,0,0,0.1);'',
     ''            text-align: center;'',
     ''            transition: transform 0.3s;'',
     ''        }'',
     ''        .stat-card:hover {'',
     ''            transform: translateY(-5px);'',
     ''        }'',
     ''        .stat-number {'',
     ''            font-size: 2.5em;'',
     ''            font-weight: bold;'',
     ''            margin-bottom: 10px;'',
     ''        }'',
     ''        .stat-label {'',
     ''            color: #666;'',
     ''            font-size: 0.9em;'',
     ''            text-transform: uppercase;'',
     ''            letter-spacing: 1px;'',
     ''        }'',
     ''        .passes { color: #10b981; }'',
     ''        .violations { color: #ef4444; }'',
     ''        .incomplete { color: #f59e0b; }'',
     ''        .inapplicable { color: #6b7280; }'',
     ''        .impact-summary {'',
     ''            background: white;'',
     ''            padding: 30px;'',
     ''            border-radius: 10px;'',
     ''            margin-bottom: 40px;'',
     ''            box-shadow: 0 2px 10px rgba(0,0,0,0.1);'',
     ''        }'',
     ''        .impact-grid {'',
     ''            display: grid;'',
     ''            grid-template-columns: repeat(auto-fit, minmax(150px, 1fr));'',
     ''            gap: 15px;'',
     ''            margin-top: 20px;'',
     ''        }'',
     ''        .impact-item {'',
     ''            padding: 15px;'',
     ''            border-radius: 8px;'',
     ''            text-align: center;'',
     ''            font-weight: bold;'',
     ''        }'',
     ''        .critical { background: #fee2e2; color: #991b1b; }'',
     ''        .serious { background: #fed7aa; color: #c2410c; }'',
     ''        .moderate { background: #fef3c7; color: #d97706; }'',
     ''        .minor { background: #dbeafe; color: #1e40af; }'',
     ''        .violations-section {'',
     ''            background: white;'',
     ''            padding: 30px;'',
     ''            border-radius: 10px;'',
     ''            box-shadow: 0 2px 10px rgba(0,0,0,0.1);'',
     ''        }'',
     ''        .violation {'',
     ''            border-left: 4px solid #ef4444;'',
     ''            padding: 20px;'',
     ''            margin: 20px 0;'',
     ''            background: #fef2f2;'',
     ''            border-radius: 0 8px 8px 0;'',
     ''        }'',
     ''        .violation-header {'',
     ''            display: flex;'',
     ''            justify-content: space-between;'',
     ''            align-items: center;'',
     ''            margin-bottom: 15px;'',
     ''        }'',
     ''        .violation-title {'',
     ''            font-size: 1.2em;'',
     ''            font-weight: bold;'',
     ''            color: #1f2937;'',
     ''        }'',
     ''        .violation-impact {'',
     ''            padding: 5px 12px;'',
     ''            border-radius: 20px;'',
     ''            font-size: 0.85em;'',
     ''            font-weight: bold;'',
     ''            text-transform: uppercase;'',
     ''        }'',
     ''        .violation-description {'',
     ''            color: #4b5563;'',
     ''            margin-bottom: 15px;'',
     ''            line-height: 1.6;'',
     ''        }'',
     ''        .violation-details {'',
     ''            margin-top: 15px;'',
     ''            padding-top: 15px;'',
     ''            border-top: 1px solid #e5e7eb;'',
     ''        }'',
     ''        .affected-elements {'',
     ''            background: white;'',
     ''            padding: 10px;'',
     ''            border-radius: 5px;'',
     ''            margin-top: 10px;'',
     ''            font-family: \'Courier New\', monospace;'',
     ''            font-size: 0.9em;'',
     ''            overflow-x: auto;'',
     ''        }'',
     ''        .help-link {'',
     ''            display: inline-block;'',
     ''            margin-top: 10px;'',
     ''            color: #3b82f6;'',
     ''            text-decoration: none;'',
     ''            font-weight: 500;'',
     ''        }'',
     ''        .help-link:hover {'',
     ''            text-decoration: underline;'',
     ''        }'',
     ''        .screenshot-section {'',
     ''            margin-top: 40px;'',
     ''            background: white;'',
     ''            padding: 30px;'',
     ''            border-radius: 10px;'',
     ''            box-shadow: 0 2px 10px rgba(0,0,0,0.1);'',
     ''        }'',
     ''        .screenshot-img {'',
     ''            width: 100%;'',
     ''            border-radius: 8px;'',
     ''            border: 1px solid #e5e7eb;'',
     ''        }'',
     ''        footer {'',
     ''            text-align: center;'',
     ''            margin-top: 40px;'',
     ''            padding: 20px;'',
     ''            color: #6b7280;'',
     ''        }'',
     ''        .test-info {'',
     ''            background: #f3f4f6;'',
     ''            padding: 15px;'',
     ''            border-radius: 8px;'',
     ''            margin-top: 20px;'',
     ''        }'',
     ''        .test-info-item {'',
     ''            display: flex;'',
     ''            justify-content: space-between;'',
     ''            margin: 5px 0;'',
     ''        }'',
     ''        .test-info-label {'',
     ''            font-weight: bold;'',
     ''            color: #4b5563;'',
     ''        }'',
     ''    </style>'',
     ''</head>'',
     ''<body>'',
     ''    <div class="container">'',
     ''        <header>'',
     ''            <h1>Accessibility Report</h1>'',
     ''            <div class="header-info">'',
     ''                <p>'']\<close>

definition document_3 :: string where
  \<open>document_3 = join_lines
    [''</p>'',
     ''                <p>'']\<close>

definition document_4 :: string where
  \<open>document_4 = join_lines
    [''</p>'',
     ''                <div class="browser-info">'',
     ''                    '' @ desktop_computer @ '' Browser: '']\<close>

definition document_5 :: string where
  \<open>document_5 = join_lines
    ['''',
     ''                </div>'',
     ''            </div>'',
     ''        </header>'',
     '''',
     ''        <div class="summary">'',
     ''            <div class="stat-card">'',
     ''                <div class="stat-number passes">'']\<close>

definition document_6 :: string where
  \<open>document_6 = join_lines
    [''</div>'',
     ''                <div class="stat-label">Passed</div>'',
     ''            </div>'',
     ''            <div class="stat-card">'',
     ''                <div class="stat-number violations">'']\<close>

definition document_7 :: string where
  \<open>document_7 = join_lines
    [''</div>'',
     ''                <div class="stat-label">Violations</div>'',
     ''            </div>'',
     ''            <div class="stat-card">'',
     ''                <div class="stat-number incomplete">'']\<close>

definition document_8 :: string where
  \<open>document_8 = join_lines
    [''</div>'',
     ''                <div class="stat-label">Incomplete</div>'',
     ''            </div>'',
     ''            <div class="stat-card">'',
     ''                <div class="stat-number inapplicable">'']\<close>

definition document_9 :: string where
  \<open>document_9 = join_lines
    [''</div>'',
     ''                <div class="stat-label">Not Applicable</div>'',
     ''            </div>'',
     ''        </div>'',
     '''',
     ''        '']\<close>

definition impact_1 :: string where
  \<open>impact_1 = join_lines
    ['''',
     ''        <div class="impact-summary">'',
     ''            <h2>Violations by Impact Level</h2>'',
     ''            <div class="impact-grid">'',
     ''                <div class="impact-item critical">'',
     ''                    Critical: '']\<close>

definition impact_2 :: string where
  \<open>impact_2 = join_lines
    ['''',
     ''                </div>'',
     ''                <div class="impact-item serious">'',
     ''                    Serious: '']\<close>

definition impact_3 :: string where
  \<open>impact_3 = join_lines
    ['''',
     ''                </div>'',
     ''                <div class="impact-item moderate">'',
     ''                    Moderate: '']\<close>

definition impact_4 :: string where
  \<open>impact_4 = join_lines
    ['''',
     ''                </div>'',
     ''                <div class="impact-item minor">'',
     ''                    Minor: '']\<close>

definition impact_5 :: string where
  \<open>impact_5 = join_lines
    ['''',
     ''                </div>'',
     ''            </div>'',
     ''        </div>'',
     '''',
     ''        <div class="violations-section">'',
     ''            <h2>Violation Details</h2>'',
     ''            '']\<close>

definition violation_1 :: string where
  \<open>violation_1 = join_lines
    ['''',
     ''                <div class="violation">'',
     ''                    <div class="violation-header">'',
     ''                        <div class="violation-title">'']\<close>

definition violation_2 :: string where
  \<open>violation_2 = join_lines
    [''</div>'',
     ''                        <span class="violation-impact '']\<close>

definition violation_4 :: string where
  \<open>violation_4 = join_lines
    [''</span>'',
     ''                    </div>'',
     ''                    <div class="violation-description">'',
     ''                        '']\<close>

definition violation_5 :: string where
  \<open>violation_5 = join_lines
    ['''',
     ''                    </div>'',
     ''                    <div class="violation-details">'',
     ''                        <strong>Rule ID:</strong> '']\<close>

definition violation_6 :: string where
  \<open>violation_6 = join_lines
    [''<br>'',
     ''                        <strong>WCAG:</strong> '']\<close>

definition violation_7 :: string where
  \<open>violation_7 = join_lines
    [''<br>'',
     ''                        <strong>Elements Affected:</strong> '']\<close>

definition violation_8 :: string where
  \<open>violation_8 = join_lines
    ['''',
     ''                        '']\<close>

definition affected_1 :: string where
  \<open>affected_1 = join_lines
    ['''',
     ''                            <div class="affected-elements">'',
     ''                                '']\<close>

definition affected_2 :: string where
  \<open>affected_2 = join_lines
    ['''',
     ''                                '']\<close>

definition affected_3 :: string where
  \<open>affected_3 = join_lines
    ['''',
     ''                            </div>'',
     ''                        '']\<close>

definition violation_9 :: string where
  \<open>violation_9 = join_lines
    ['''',
     ''                        <a href="'']\<close>

definition violation_10 :: string where
  \<open>violation_10 = join_lines
    [''" target="_blank" class="help-link">'',
     ''                            Learn more about this issue '' @ right_arrow,
     ''                        </a>'',
     ''                    </div>'',
     ''                </div>'',
     ''            '']\<close>

definition impact_6 :: string where
  \<open>impact_6 = join_lines
    ['''',
     ''        </div>'',
     ''        '']\<close>

definition no_violations_1 :: string where
  \<open>no_violations_1 = join_lines
    ['''',
     ''        <div class="impact-summary">'',
     ''            <h2 style="color: #10b981; text-align: center;">'' @ check_box @ '' No accessibility violations found!</h2>'',
     ''        </div>'',
     ''        '']\<close>

definition document_10 :: string where
  \<open>document_10 = join_lines
    ['''',
     '''',
     ''        <div class="test-info">'',
     ''            <h3>Test Configuration</h3>'',
     ''            <div class="test-info-item">'',
     ''                <span class="test-info-label">Test Engine:</span>'',
     ''                <span>axe-core '']\<close>

definition document_11 :: string where
  \<open>document_11 = join_lines
    [''</span>'',
     ''            </div>'',
     ''            <div class="test-info-item">'',
     ''                <span class="test-info-label">Test Framework:</span>'',
     ''                <span>Playwright with axe-playwright</span>'',
     ''            </div>'',
     ''            <div class="test-info-item">'',
     ''                <span class="test-info-label">Browser:</span>'',
     ''                <span>'']\<close>

definition document_12 :: string where
  \<open>document_12 = join_lines
    [''</span>'',
     ''            </div>'',
     ''            <div class="test-info-item">'',
     ''                <span class="test-info-label">Viewport:</span>'',
     ''                <span>'']\<close>

definition document_14 :: string where
  \<open>document_14 = join_lines
    [''</span>'',
     ''            </div>'',
     ''            <div class="test-info-item">'',
     ''                <span class="test-info-label">Rules Applied:</span>'',
     ''                <span>'']\<close>

definition document_15 :: string where
  \<open>document_15 = join_lines
    [''</span>'',
     ''            </div>'',
     ''        </div>'',
     '''',
     ''        <div class="screenshot-section">'',
     ''            <h2>Page Screenshot</h2>'',
     ''            <img src="screenshot.png" alt="Screenshot of tested page" class="screenshot-img">'',
     ''        </div>'',
     '''',
     ''        <footer>'',
     ''            <p>Generated with axe-core '']\<close>

definition document_16 :: string where
  \<open>document_16 = join_lines
    ['' and Playwright</p>'',
     ''        </footer>'',
     ''    </div>'',
     ''</body>'',
     ''</html>'']\<close>

subsection \<open>The template\<close>

text \<open>
  The block of affected elements of one violation: the targets of the first three nodes,
  each target joined by a space and the nodes by \<open><br>\<close>, then the count of the
  remaining nodes when there are more than three.
\<close>

definition affected_elements :: "rule_outcome \<Rightarrow> string" where
  "affected_elements violation =
     (if length (nodes violation) > 0 then
        affected_1 @
        join ''<br>'' (map (\<lambda>node. join '' '' (target node)) (slice 0 3 (nodes violation))) @
        affected_2 @
        (if length (nodes violation) > 3
         then ''<br>... and '' @ number_toString (length (nodes violation) - 3) @ '' more''
         else '''') @
        affected_3
      else '''')"

definition violation_block :: "rule_outcome \<Rightarrow> string" where
  \<open>violation_block violation =
     violation_1 @ help_text violation @
     violation_2 @ impact_toString (impact violation) @ ''">'' @ impact_toString (impact violation) @
     violation_4 @ description violation @
     violation_5 @ id_rule violation @
     violation_6 @ join '', '' (tags violation) @
     violation_7 @ number_toString (length (nodes violation)) @
     violation_8 @ affected_elements violation @
     violation_9 @ helpUrl violation @
     violation_10\<close>

definition impact_section :: "summary \<Rightarrow> rule_outcome list \<Rightarrow> string" where
  "impact_section summary vs =
     impact_1 @ jsnum_toString (violationsByImpact summary ''critical'') @
     impact_2 @ jsnum_toString (violationsByImpact summary ''serious'') @
     impact_3 @ jsnum_toString (violationsByImpact summary ''moderate'') @
     impact_4 @ jsnum_toString (violationsByImpact summary ''minor'') @
     impact_5 @ join '''' (map violation_block vs) @
     impact_6"

text \<open>\<open>this.browser.charAt(0).toUpperCase() + this.browser.slice(1)\<close>.\<close>

definition capitalized :: "'w ext \<Rightarrow> string \<Rightarrow> string" where
  "capitalized x b = toUpperCase x (take 1 b) @ drop 1 b"

text \<open>\<open>this.axeOptions.runOnly?.values?.join(", ") || "All"\<close>.\<close>

definition rules_applied :: "tester \<Rightarrow> string" where
  "rules_applied this =
     (case runOnly_values this of
        None \<Rightarrow> ''All''
      | Some vs \<Rightarrow> if join '', '' vs = '''' then ''All'' else join '', '' vs)"

text \<open>
  The template literal of \<open>generateHTMLReport\<close>, for a summary and a result. The host
  name of \<open>this.url\<close> comes first and throws on an invalid address; the violations are
  read only when the summary counts at least one.
\<close>

definition html_document :: "'w ext \<Rightarrow> tester \<Rightarrow> summary \<Rightarrow> scan_result \<Rightarrow> error + string" where
  "html_document x this summary results =
     (case hostname x (t_url this) of
        Inl e \<Rightarrow> Inl e
      | Inr host \<Rightarrow>
          if s_violations summary > 0 \<and> violations results = None then Inl (undefined_read ''map'')
          else Inr (
            document_1 @ host @
            document_2 @ host @
            document_3 @ toLocaleString x (s_timestamp summary) @
            document_4 @ capitalized x (browser this) @
            document_5 @ number_toString (s_passes summary) @
            document_6 @ number_toString (s_violations summary) @
            document_7 @ number_toString (s_incomplete summary) @
            document_8 @ number_toString (s_inapplicable summary) @
            document_9 @
            (if s_violations summary > 0
             then impact_section summary (the (violations results))
             else no_violations_1) @
            document_10 @ axe_version x @
            document_11 @ browser this @
            document_12 @ number_toString (width (viewport this)) @ '' x '' @
              number_toString (height (viewport this)) @
            document_14 @ rules_applied this @
            document_15 @ axe_version x @
            document_16))"

section \<open>The HTML report of the WebdriverIO script\<close>

subsection \<open>The fixed text of the template\<close>



















subsection \<open>The template\<close>




section \<open>The methods of the Playwright tester\<close>

text \<open>
  Console output is not part of the model: \<open>console.log\<close> and \<open>console.error\<close> neither
  throw nor change anything the code reads.
\<close>

text \<open>\<open>path.join(dir, name)\<close> where \<open>dir\<close> may still be \<open>undefined\<close>.\<close>

definition path_join_dir :: "'w ext \<Rightarrow> string option \<Rightarrow> string \<Rightarrow> ('w, string) prog" where
  \<open>path_join_dir x dir name =
     (case dir of
        None \<Rightarrow> throw (TypeError ''The "path" argument must be of type string. Received undefined'')
      | Some d \<Rightarrow> ret (path_join x d name))\<close>

text \<open>\<open>str.replace(/[:.]/g, '-')\<close>.\<close>

definition replace_colon_dot :: "string \<Rightarrow> string" where
  "replace_colon_dot = map (\<lambda>c. if c = CHR '':'' \<or> c = CHR ''.'' then CHR ''-'' else c)"

definition init :: "'w ext \<Rightarrow> ('w, unit) prog" where
  "init x =
     bnd get_self (\<lambda>this.
       let dir = path_join x (outputDir this) (t_timestamp this) in
       bnd (await x (Mkdir dir)) (\<lambda>_.
       set_self (\<lambda>t. t \<lparr> reportDir := Some dir \<rparr>)))"

text \<open>The \<open>switch\<close> of \<open>launchBrowser\<close> on the lower-cased browser name.\<close>

definition engine_of :: "string \<Rightarrow> string" where
  "engine_of b =
     (if b = ''firefox'' then ''firefox''
      else if b = ''webkit'' \<or> b = ''safari'' then ''webkit''
      else ''chromium'')"

definition launchBrowser :: "'w ext \<Rightarrow> ('w, unit) prog" where
  "launchBrowser x =
     bnd get_self (\<lambda>this.
       await x (Launch (engine_of (toLowerCase x (browser this))) (\<not> headed this)))"

text \<open>
  The \<open>catch\<close> block of both audit methods: \<open>if (browser) await browser.close(); throw error\<close>.
  The flag says whether the variable \<open>browser\<close> has been assigned, that is, whether the
  launch returned.
\<close>

definition close_and_rethrow :: "'w ext \<Rightarrow> bool \<Rightarrow> error \<Rightarrow> ('w, 'a) prog" where
  "close_and_rethrow x launched error =
     (if launched then bnd (await x Close) (\<lambda>_. throw error) else throw error)"



text \<open>The statements of \<open>runWithAxePlaywright\<close> inside \<open>try\<close> after the launch.\<close>

definition axe_playwright_steps :: "'w ext \<Rightarrow> tester \<Rightarrow> ('w, scan_result) prog" where
  "axe_playwright_steps x this =
     bnd (await x (NewContext (viewport this))) (\<lambda>_.
     bnd (await x NewPage) (\<lambda>_.
     bnd (await x (Goto (t_url this))) (\<lambda>_.
     bnd (path_join_dir x (reportDir this) ''screenshot.png'') (\<lambda>screenshotPath.
     bnd (await x (Screenshot screenshotPath)) (\<lambda>_.
     bnd (await x InjectAxe) (\<lambda>_.
     bnd (await x (GetViolations (runOnly_values this))) (\<lambda>_.
     bnd (read_world (axe_violations x)) (\<lambda>vs.
     bnd (await x (RunAxe (runOnly_values this))) (\<lambda>_.
     bnd (read_world (axe_results x)) (\<lambda>results.
     bnd (await x Close) (\<lambda>_.
     ret (results \<lparr> violations := Some vs \<rparr>))))))))))))"

definition runWithAxePlaywright :: "'w ext \<Rightarrow> ('w, scan_result) prog" where
  "runWithAxePlaywright x =
     bnd get_self (\<lambda>this s.
       case launchBrowser x s of
         (Inl error, s1) \<Rightarrow> close_and_rethrow x False error s1
       | (Inr _, s1) \<Rightarrow> try_catch (axe_playwright_steps x this) (close_and_rethrow x True) s1)"

definition generateJSONReport :: "'w ext \<Rightarrow> scan_result \<Rightarrow> ('w, report) prog" where
  "generateJSONReport x results =
     bnd get_self (\<lambda>this.
     bnd (path_join_dir x (reportDir this) ''report.json'') (\<lambda>jsonPath.
     bnd (lift (generateSummary this results)) (\<lambda>sm.
       let report = \<lparr> r_summary = sm, r_results = results \<rparr> in
       bnd (await x (WriteFile jsonPath (stringify_report x report))) (\<lambda>_.
       ret report))))"

definition generateHTMLReport :: "'w ext \<Rightarrow> scan_result \<Rightarrow> ('w, unit) prog" where
  "generateHTMLReport x results =
     bnd get_self (\<lambda>this.
     bnd (lift (generateSummary this results)) (\<lambda>sm.
     bnd (path_join_dir x (reportDir this) ''report.html'') (\<lambda>htmlPath.
     bnd (lift (html_document x this sm results)) (\<lambda>html.
     await x (WriteFile htmlPath html)))))"

text \<open>\<open>printConsoleSummary\<close> only writes to the console.\<close>

definition printConsoleSummary :: "summary \<Rightarrow> ('w, unit) prog" where
  "printConsoleSummary sm = ret ()"

text \<open>The statements that \<open>run\<close> and \<open>runMultipleBrowsers\<close> share inside their \<open>try\<close>.\<close>

definition audit_and_report :: "'w ext \<Rightarrow> ('w, report) prog" where
  "audit_and_report x =
     bnd (init x) (\<lambda>_.
     bnd (runWithAxePlaywright x) (\<lambda>auditResults.
     bnd (generateJSONReport x auditResults) (\<lambda>report.
     bnd (generateHTMLReport x auditResults) (\<lambda>_.
     bnd (printConsoleSummary (r_summary report)) (\<lambda>_.
     ret report)))))"


text \<open>
  An entry of the object \<open>runMultipleBrowsers\<close> returns:
  \<open>{ success: true, summary, reportDir }\<close> or \<open>{ success: false, error }\<close>.
\<close>

datatype outcome = Success summary "string option" | Failure string

text \<open>
  \<open>results[browser] = entry\<close> on a plain object: the key \<open>__proto__\<close> sets the prototype
  and creates no entry.
\<close>

definition assign :: "(string \<rightharpoonup> 'a) \<Rightarrow> string \<Rightarrow> 'a \<Rightarrow> (string \<rightharpoonup> 'a)" where
  "assign m k v = (if k = ''__proto__'' then m else m(k \<mapsto> v))"

text \<open>One iteration of the loop of \<open>runMultipleBrowsers\<close>, up to the entry it stores.\<close>

definition run_browser :: "'w ext \<Rightarrow> string \<Rightarrow> ('w, outcome) prog" where
  "run_browser x b =
     bnd (set_self (\<lambda>t. t \<lparr> browser := b \<rparr>)) (\<lambda>_.
     bnd (clock x) (\<lambda>iso.
     bnd (set_self (\<lambda>t. t \<lparr> t_timestamp := b @ ''-'' @ replace_colon_dot iso \<rparr>)) (\<lambda>_.
     try_catch
       (bnd (audit_and_report x) (\<lambda>report.
        bnd get_self (\<lambda>this.
        ret (Success (r_summary report) (reportDir this)))))
       (\<lambda>error. ret (Failure (message error))))))"

fun run_browsers :: "'w ext \<Rightarrow> string list \<Rightarrow> (string \<rightharpoonup> outcome) \<Rightarrow> ('w, string \<rightharpoonup> outcome) prog" where
  "run_browsers x [] res = ret res"
| "run_browsers x (b # bs) res =
     bnd (run_browser x b) (\<lambda>entry. run_browsers x bs (assign res b entry))"

definition runMultipleBrowsers :: "'w ext \<Rightarrow> string list \<Rightarrow> ('w, string \<rightharpoonup> outcome) prog" where
  "runMultipleBrowsers x browsers = run_browsers x browsers Map.empty"

section \<open>The WebdriverIO script\<close>






section \<open>Browser sessions in a trace\<close>

text \<open>
  A launch is a call of \<open>launch\<close> or \<open>remote\<close>; it acquires a session when it returns.
  A release is a call of \<open>close\<close> or \<open>deleteSession\<close>. The session counts as closed
  once such a call has returned; after a release that threw it still counts as open.
\<close>

fun is_launch :: "call \<times> error option \<Rightarrow> bool" where
  "is_launch (Launch k h, r) = True"
| "is_launch (Remote, r) = True"
| "is_launch (c, r) = False"

fun is_release :: "call \<times> error option \<Rightarrow> bool" where
  "is_release (Close, r) = True"
| "is_release (DeleteSession, r) = True"
| "is_release (c, r) = False"







text \<open>Two notions for the proofs: a program that neither launches nor releases, and one
  that launches nothing and, when it returns, has made a release last.\<close>

definition quiet :: "('w, 'a) prog \<Rightarrow> bool" where
  "quiet m = (\<forall>s. \<exists>tr. trace (snd (m s)) = trace s @ tr
                 \<and> list_all (\<lambda>e. \<not> is_launch e \<and> \<not> is_release e) tr)"


subsection \<open>Concrete inputs\<close>

text \<open>
  A tester with the default address, browser, viewport and rules, and the scenario of an audit
  with ten passed rules, one serious violation on four nodes, nothing incomplete and two
  inapplicable rules.
\<close>

definition tester0 :: tester where
  "tester0 = \<lparr> t_url = ''https://playwright.dev/'',
               outputDir = ''accessibility-reports'',
               browser = ''chromium'',
               headed = False,
               viewport = \<lparr> width = 1920, height = 1080 \<rparr>,
               runOnly_values = Some [''wcag2a'', ''wcag2aa'', ''wcag21a'', ''wcag21aa'', ''best-practice''],
               t_timestamp = ''2024-01-15T10-30-00-000Z'',
               reportDir = None \<rparr>"

definition outcome0 :: "string \<Rightarrow> impact_value \<Rightarrow> nat \<Rightarrow> rule_outcome" where
  "outcome0 i imp n =
     \<lparr> id_rule = i,
       description = ''Ensures the rule '' @ i @ '' holds'',
       help_text = ''Elements must satisfy '' @ i,
       helpUrl = ''https://dequeuniversity.com/rules/axe/4.10/'' @ i,
       impact = imp,
       tags = [''wcag2a'', ''wcag2aa''],
       nodes = replicate n \<lparr> target = [''#main'', ''.item''] \<rparr> \<rparr>"

definition scenario :: scan_result where
  "scenario = \<lparr> url = ''https://example.com/'',
                timestamp = ''2024-01-15T10:30:00.000Z'',
                testEngine_version = ''4.10.2'',
                passes = Some (replicate 10 (outcome0 ''region'' Null 1)),
                violations = Some [outcome0 ''color-contrast'' (Str ''serious'') 4],
                incomplete = Some [],
                inapplicable = Some (replicate 2 (outcome0 ''marquee'' Null 0)) \<rparr>"


text \<open>
  Four violations: a serious one, one with an impact outside the four levels, one with no
  impact, and a critical one.
\<close>

definition mixed_violations :: "rule_outcome list" where
  "mixed_violations = [outcome0 ''color-contrast'' (Str ''serious'') 4,
                       outcome0 ''custom-rule'' (Str ''unknown'') 1,
                       outcome0 ''label'' Null 2,
                       outcome0 ''image-alt'' (Str ''critical'') 5]"

definition mixed :: scan_result where
  "mixed = scenario \<lparr> violations := Some mixed_violations \<rparr>"

definition mixed_known :: scan_result where
  "mixed_known = scenario \<lparr> violations := Some [outcome0 ''color-contrast'' (Str ''serious'') 4,
                                                outcome0 ''label'' Null 2,
                                                outcome0 ''image-alt'' (Str ''critical'') 5] \<rparr>"

subsection \<open>A host to run the methods in\<close>













section \<open>Notions for the properties of the HTML report\<close>

text \<open>\<open>String.prototype.startsWith\<close> and \<open>String.prototype.includes\<close>.\<close>

fun starts_with :: "string \<Rightarrow> string \<Rightarrow> bool" where
  "starts_with xs [] = True"
| "starts_with [] (p # ps) = False"
| "starts_with (x # xs) (p # ps) = (x = p \<and> starts_with xs ps)"

fun contains_text :: "string \<Rightarrow> string \<Rightarrow> bool" where
  "contains_text [] p = (p = [])"
| "contains_text (x # xs) p = (starts_with (x # xs) p \<or> contains_text xs p)"

text \<open>The number a decimal text stands for.\<close>

definition digit_value :: "char \<Rightarrow> nat" where
  "digit_value c = (case map_of (zip digits [0, 1, 2, 3, 4, 5, 6, 7, 8, 9]) c of
                      Some d \<Rightarrow> d | None \<Rightarrow> 0)"

definition decimal_value :: "string \<Rightarrow> nat" where
  "decimal_value s = foldl (\<lambda>a c. 10 * a + digit_value c) 0 s"

text \<open>
  The affected-elements block in the words of the claim: the targets shown are those of
  the first three nodes, and the indicator of the remaining ones is present exactly when
  there are more than three nodes, and then names their number.
\<close>

definition shown_targets :: "rule_outcome \<Rightarrow> string list" where
  "shown_targets v = map (\<lambda>node. join '' '' (target node)) (take 3 (nodes v))"

definition more_indicator :: "rule_outcome \<Rightarrow> string" where
  "more_indicator v =
     (if length (nodes v) > 3
      then ''<br>... and '' @ number_toString (length (nodes v) - 3) @ '' more''
      else [])"

definition affected_block :: "rule_outcome \<Rightarrow> string" where
  "affected_block v =
     (if nodes v = [] then []
      else affected_1 @ join ''<br>'' (shown_targets v) @ affected_2 @ more_indicator v @ affected_3)"

text \<open>A violation with five affected nodes.\<close>

definition five_nodes :: rule_outcome where
  "five_nodes = (outcome0 ''color-contrast'' (Str ''serious'') 0)
     \<lparr> nodes := [\<lparr> target = [''#n1''] \<rparr>, \<lparr> target = [''iframe'', ''#n2''] \<rparr>,
                 \<lparr> target = [''#n3''] \<rparr>, \<lparr> target = [''#n4''] \<rparr>, \<lparr> target = [''#n5''] \<rparr>] \<rparr>"

text \<open>The files a run wrote, with their contents, in order.\<close>

fun written_files :: "(call \<times> error option) list \<Rightarrow> (string \<times> string) list" where
  "written_files [] = []"
| "written_files ((WriteFile p d, r) # tr) = (p, d) # written_files tr"
| "written_files (e # tr) = written_files tr"






section \<open>Properties of the summarizer\<close>

lemma distinct_recognized: "distinct recognized"
  by (simp add: recognized_def)

lemma proto_unrecognized: "''__proto__'' \<notin> set recognized"
  by (simp add: recognized_def)

lemma counts_ok_init: "counts_ok impact_init"
  by (simp add: counts_ok_def impact_init_def recognized_def is_count_def)

lemma sum_recognized_init: "sum_recognized impact_init = 0"
  by (simp add: sum_recognized_def impact_init_def recognized_def count_of_def)

lemma is_count_increment:
  "k \<noteq> ''__proto__'' \<Longrightarrow>
   is_count (increment m k) k' = (if k' = k then is_count m k else is_count m k')"
  by (simp add: is_count_def increment_def split: option.splits jsnum.splits)

lemma count_of_increment:
  "k \<noteq> ''__proto__'' \<Longrightarrow>
   count_of (increment m k) k' =
     (if k' = k \<and> is_count m k then count_of m k' + 1 else count_of m k')"
  by (simp add: count_of_def is_count_def increment_def split: option.splits jsnum.splits)

lemma sum_list_bump:
  "distinct xs \<Longrightarrow>
   sum_list (map (\<lambda>x. if x = k \<and> P then g x + 1 else g x) xs) =
     sum_list (map g xs) + (if k \<in> set xs \<and> P then 1 else (0::nat))"
  by (induction xs) auto

lemma sum_recognized_increment:
  "sum_recognized (increment m k) =
     sum_recognized m + (if k \<in> set recognized \<and> is_count m k then 1 else 0)"
proof (cases "k = ''__proto__''")
  case True
  then show ?thesis
    using proto_unrecognized by (simp add: increment_def)
next
  case False
  then have "count_of (increment m k) =
      (\<lambda>x. if x = k \<and> is_count m k then count_of m x + 1 else count_of m x)"
    by (intro ext) (rule count_of_increment)
  then show ?thesis
    using sum_list_bump [OF distinct_recognized, of k "is_count m k" "count_of m"]
    by (simp add: sum_recognized_def)
qed

lemma counts_ok_increment:
  "counts_ok m \<Longrightarrow> counts_ok (increment m k)"
proof (cases "k = ''__proto__''")
  case True
  assume "counts_ok m"
  with True show ?thesis by (simp add: increment_def)
next
  case False
  assume "counts_ok m"
  with False show ?thesis
    by (auto simp: counts_ok_def list_all_iff is_count_increment)
qed

lemma increment_recognized:
  assumes "counts_ok m" and "k \<in> set recognized"
  shows "counts_ok (increment m k) \<and> sum_recognized (increment m k) = sum_recognized m + 1"
proof -
  from assms have "is_count m k"
    by (simp add: counts_ok_def list_all_iff)
  with assms show ?thesis
    by (simp add: counts_ok_increment sum_recognized_increment)
qed

lemma increment_unrecognized:
  assumes "counts_ok m" and "k \<notin> set recognized"
  shows "counts_ok (increment m k) \<and> sum_recognized (increment m k) = sum_recognized m"
  using assms by (simp add: counts_ok_increment sum_recognized_increment)

lemma count_impact_step:
  assumes "counts_ok m"
  shows "counts_ok (count_impact m v) \<and>
         sum_recognized (count_impact m v) = sum_recognized m + (if recognized_impact v then 1 else 0)"
proof (cases "impact v")
  case (Str s)
  show ?thesis
  proof (cases "s \<in> set recognized")
    case True
    then have "s \<noteq> []" by (auto simp: recognized_def)
    with True Str assms show ?thesis
      using increment_recognized [of m s]
      by (simp add: count_impact_def recognized_impact_def)
  next
    case False
    with Str assms show ?thesis
      using increment_unrecognized [of m s]
      by (simp add: count_impact_def recognized_impact_def)
  qed
qed (use assms in \<open>simp_all add: count_impact_def recognized_impact_def\<close>)

lemma foldl_count_impact:
  "counts_ok m \<Longrightarrow>
   counts_ok (foldl count_impact m vs) \<and>
   sum_recognized (foldl count_impact m vs) = sum_recognized m + length (filter recognized_impact vs)"
proof (induction vs arbitrary: m)
  case Nil
  then show ?case by simp
next
  case (Cons v vs)
  from count_impact_step [OF Cons.prems, of v]
  have ok: "counts_ok (count_impact m v)"
    and s: "sum_recognized (count_impact m v) = sum_recognized m + (if recognized_impact v then 1 else 0)"
    by simp_all
  from Cons.IH [OF ok] s show ?case by simp
qed

lemma filter_length_eq_iff: "length (filter P xs) = length xs \<longleftrightarrow> (\<forall>x\<in>set xs. P x)"
  by (induction xs) (auto simp: le_imp_less_Suc [THEN less_imp_neq] dest: length_filter_le [THEN le_less_trans])
 

lemma foldl_count_impact_bucket:
  assumes "k \<in> set recognized" and "m k = Some (Num n)"
  shows "foldl count_impact m vs k = Some (Num (n + length (filter (\<lambda>v. impact v = Str k) vs)))"
  using assms(2)
proof (induction vs arbitrary: m n)
  case Nil
  then show ?case by simp
next
  case (Cons v vs)
  have k: "k \<noteq> []" "k \<noteq> ''__proto__''"
    using assms(1) by (auto simp: recognized_def)
  show ?case
  proof (cases "impact v = Str k")
    case True
    with Cons.prems k have "count_impact m v k = Some (Num (n + 1))"
      by (simp add: count_impact_def increment_def)
    from Cons.IH [of "count_impact m v" "n + 1", OF this] True show ?thesis by simp
  next
    case False
    with Cons.prems have "count_impact m v k = Some (Num n)"
      by (auto simp: count_impact_def increment_def split: impact_value.splits)
    from Cons.IH [of "count_impact m v" n, OF this] False show ?thesis by simp
  qed
qed

lemma foldl_count_impact_dom:
  "dom (foldl count_impact m vs) =
     dom m \<union> {k. k \<noteq> [] \<and> k \<noteq> ''__proto__'' \<and> (\<exists>v\<in>set vs. impact v = Str k)}"
proof (induction vs arbitrary: m)
  case Nil
  then show ?case by simp
next
  case (Cons v vs)
  have "dom (count_impact m v) =
          dom m \<union> {k. k \<noteq> [] \<and> k \<noteq> ''__proto__'' \<and> impact v = Str k}"
    by (auto simp: count_impact_def increment_def split: impact_value.splits if_splits)
  with Cons.IH [of "count_impact m v"] show ?case by auto
qed

lemma count_impact_NaN_stays:
  "m k = Some NaN \<Longrightarrow> count_impact m v k = Some NaN"
  by (auto simp: count_impact_def increment_def split: impact_value.splits)

lemma foldl_count_impact_NaN_stays:
  "m k = Some NaN \<Longrightarrow> foldl count_impact m vs k = Some NaN"
  by (induction vs arbitrary: m) (simp_all add: count_impact_NaN_stays)

lemma foldl_count_impact_NaN:
  assumes "v \<in> set vs" and "impact v = Str k" and "k \<noteq> []" and "k \<noteq> ''__proto__''"
    and "m k = None \<or> m k = Some NaN"
  shows "foldl count_impact m vs k = Some NaN"
  using assms(1,5)
proof (induction vs arbitrary: m)
  case Nil
  then show ?case by simp
next
  case (Cons w ws)
  show ?case
  proof (cases "impact w = Str k")
    case True
    with Cons.prems(2) assms(3,4) have "count_impact m w k = Some NaN"
      by (auto simp: count_impact_def increment_def)
    then show ?thesis by (simp add: foldl_count_impact_NaN_stays)
  next
    case False
    with Cons.prems(2) have keep: "count_impact m w k = None \<or> count_impact m w k = Some NaN"
      by (auto simp: count_impact_def increment_def split: impact_value.splits)
    from False assms(2) Cons.prems(1) have "v \<in> set ws" by auto
    from Cons.IH [of "count_impact m w", OF this keep] show ?thesis by simp
  qed
qed

lemma impact_init_recognized: "k \<in> set recognized \<Longrightarrow> impact_init k = Some (Num 0)"
  by (auto simp: recognized_def impact_init_def)

lemma impact_init_unrecognized: "k \<notin> set recognized \<Longrightarrow> impact_init k = None"
  by (auto simp: recognized_def impact_init_def)

lemma dom_impact_init: "dom impact_init = set recognized"
  by (auto simp: recognized_def impact_init_def split: if_splits)

lemma generateSummary_Inr:
  assumes "generateSummary this r = Inr s"
  obtains ps vs ics ias where
    "passes r = Some ps" "violations r = Some vs" "incomplete r = Some ics" "inapplicable r = Some ias"
    "s = \<lparr> s_url = url r, s_timestamp = timestamp r, s_browser = browser this,
           totalElements = length ps + length vs + length ics + length ias,
           s_passes = length ps, s_violations = length vs, s_incomplete = length ics,
           s_inapplicable = length ias,
           violationsByImpact = foldl count_impact impact_init vs \<rparr>"
  using assms by (auto simp: generateSummary_def split: option.splits)

text \<open>
  Claim C1, as the code has it. For every scan result that \<open>generateSummary\<close> accepts,
  the counts under the four recognized levels add up to at most the number of violations,
  and to exactly that number if and only if every violation's impact is one of the four
  levels. Every violation, whatever its impact, is counted in \<open>violations\<close> and in
  \<open>totalElements\<close>. Each recognized bucket holds exactly the number of violations with
  that impact, so a violation with an unrecognized or missing impact changes none of the
  four. A missing (absent, \<open>null\<close> or empty) impact adds nothing to the breakdown; a
  non-empty unrecognized impact adds an entry under its own name whose value is \<open>NaN\<close>.
\<close>

theorem impact_breakdown:
  assumes "generateSummary this r = Inr s" and "violations r = Some vs"
  shows "sum_recognized (violationsByImpact s) \<le> length vs
       \<and> (sum_recognized (violationsByImpact s) = length vs \<longleftrightarrow> (\<forall>v\<in>set vs. recognized_impact v))
       \<and> s_violations s = length vs
       \<and> totalElements s = s_passes s + length vs + s_incomplete s + s_inapplicable s
       \<and> (\<forall>k\<in>set recognized.
            violationsByImpact s k = Some (Num (length (filter (\<lambda>v. impact v = Str k) vs))))
       \<and> (\<forall>v\<in>set vs. \<forall>k. impact v = Str k \<and> k \<noteq> [] \<and> k \<noteq> ''__proto__'' \<and> k \<notin> set recognized
            \<longrightarrow> violationsByImpact s k = Some NaN)
       \<and> dom (violationsByImpact s) =
            set recognized \<union> {k. k \<noteq> [] \<and> k \<noteq> ''__proto__'' \<and> (\<exists>v\<in>set vs. impact v = Str k)}"
proof -
  from assms obtain ps ics ias :: "rule_outcome list" where s:
    "s = \<lparr> s_url = url r, s_timestamp = timestamp r, s_browser = browser this,
           totalElements = length ps + length vs + length ics + length ias,
           s_passes = length ps, s_violations = length vs, s_incomplete = length ics,
           s_inapplicable = length ias,
           violationsByImpact = foldl count_impact impact_init vs \<rparr>"
    by (auto elim!: generateSummary_Inr)
  have vbi: "violationsByImpact s = foldl count_impact impact_init vs"
    by (simp add: s)
  have sum: "sum_recognized (violationsByImpact s) = length (filter recognized_impact vs)"
    using foldl_count_impact [OF counts_ok_init, of vs] by (simp add: vbi sum_recognized_init)
  have 1: "sum_recognized (violationsByImpact s) \<le> length vs"
    by (simp add: sum)
  have 2: "sum_recognized (violationsByImpact s) = length vs \<longleftrightarrow> (\<forall>v\<in>set vs. recognized_impact v)"
    by (simp add: sum filter_length_eq_iff)
  have 3: "s_violations s = length vs"
    and 4: "totalElements s = s_passes s + length vs + s_incomplete s + s_inapplicable s"
    by (simp_all add: s)
  have 5: "\<forall>k\<in>set recognized.
            violationsByImpact s k = Some (Num (length (filter (\<lambda>v. impact v = Str k) vs)))"
    using foldl_count_impact_bucket [OF _ impact_init_recognized, where vs = vs] by (simp add: vbi)
  have 6: "\<forall>v\<in>set vs. \<forall>k. impact v = Str k \<and> k \<noteq> [] \<and> k \<noteq> ''__proto__'' \<and> k \<notin> set recognized
            \<longrightarrow> violationsByImpact s k = Some NaN"
    using foldl_count_impact_NaN [where vs = vs and m = impact_init] impact_init_unrecognized
    by (simp add: vbi)
  have 7: "dom (violationsByImpact s) =
            set recognized \<union> {k. k \<noteq> [] \<and> k \<noteq> ''__proto__'' \<and> (\<exists>v\<in>set vs. impact v = Str k)}"
    by (simp add: vbi foldl_count_impact_dom dom_impact_init)
  from 1 2 3 4 5 6 7 show ?thesis by blast
qed

theorem impact_breakdown_witness:
  "generateSummary tester0 mixed = Inr (projr (generateSummary tester0 mixed))
   \<and> violations mixed = Some mixed_violations
   \<and> length mixed_violations = 4
   \<and> sum_recognized (violationsByImpact (projr (generateSummary tester0 mixed))) = 2
   \<and> s_violations (projr (generateSummary tester0 mixed)) = 4
   \<and> totalElements (projr (generateSummary tester0 mixed)) = 16
   \<and> violationsByImpact (projr (generateSummary tester0 mixed)) ''critical'' = Some (Num 1)
   \<and> violationsByImpact (projr (generateSummary tester0 mixed)) ''serious'' = Some (Num 1)
   \<and> violationsByImpact (projr (generateSummary tester0 mixed)) ''moderate'' = Some (Num 0)
   \<and> violationsByImpact (projr (generateSummary tester0 mixed)) ''minor'' = Some (Num 0)
   \<and> violationsByImpact (projr (generateSummary tester0 mixed)) ''unknown'' = Some NaN"
  using impact_breakdown [of tester0 mixed "projr (generateSummary tester0 mixed)" mixed_violations]
  by (simp add: generateSummary_def mixed_def scenario_def mixed_violations_def outcome0_def
      recognized_def recognized_impact_def sum_recognized_def count_of_def count_impact_def
      increment_def impact_init_def)

text \<open>
  Claim C1 as the specification words it says that a violation with an unrecognized impact
  is not reflected in any impact bucket of the summary. With the impact \<open>unknown\<close> among
  the violations the breakdown has a fifth entry, which is absent when that violation is
  left out.
\<close>

theorem unrecognized_impact_counterexample:
  "violationsByImpact (projr (generateSummary tester0 mixed)) ''unknown'' = Some NaN
   \<and> violationsByImpact (projr (generateSummary tester0 mixed_known)) ''unknown'' = None
   \<and> violationsByImpact (projr (generateSummary tester0 mixed))
       \<noteq> violationsByImpact (projr (generateSummary tester0 mixed_known))"
proof -
  have a: "violationsByImpact (projr (generateSummary tester0 mixed)) ''unknown'' = Some NaN"
    by (simp add: generateSummary_def mixed_def scenario_def mixed_violations_def outcome0_def
        count_impact_def increment_def impact_init_def)
  have b: "violationsByImpact (projr (generateSummary tester0 mixed_known)) ''unknown'' = None"
    by (simp add: generateSummary_def mixed_known_def scenario_def outcome0_def
        count_impact_def increment_def impact_init_def)
  from a b have "violationsByImpact (projr (generateSummary tester0 mixed))
       \<noteq> violationsByImpact (projr (generateSummary tester0 mixed_known))"
    by (metis option.distinct(1))
  with a b show ?thesis by simp
qed

text \<open>
  Claim C2. For every scan result with the four category sequences, \<open>generateSummary\<close>
  returns a summary whose \<open>totalElements\<close> is the sum of the four lengths and whose
  per-category counts are the lengths of the corresponding sequences.
\<close>

theorem summary_counts:
  assumes "passes r = Some ps" and "violations r = Some vs"
    and "incomplete r = Some ics" and "inapplicable r = Some ias"
  shows "\<exists>s. generateSummary this r = Inr s
           \<and> totalElements s = length ps + length vs + length ics + length ias
           \<and> s_passes s = length ps \<and> s_violations s = length vs
           \<and> s_incomplete s = length ics \<and> s_inapplicable s = length ias
           \<and> totalElements s = s_passes s + s_violations s + s_incomplete s + s_inapplicable s"
  using assms by (simp add: generateSummary_def)

theorem summary_counts_witness:
  "passes scenario = Some (replicate 10 (outcome0 ''region'' Null 1))
   \<and> violations scenario = Some [outcome0 ''color-contrast'' (Str ''serious'') 4]
   \<and> incomplete scenario = Some []
   \<and> inapplicable scenario = Some (replicate 2 (outcome0 ''marquee'' Null 0))
   \<and> (\<exists>s. generateSummary tester0 scenario = Inr s
         \<and> totalElements s = 13 \<and> s_passes s = 10 \<and> s_violations s = 1
         \<and> s_incomplete s = 0 \<and> s_inapplicable s = 2)"
  using summary_counts [of scenario "replicate 10 (outcome0 ''region'' Null 1)"
      "[outcome0 ''color-contrast'' (Str ''serious'') 4]" "[]"
      "replicate 2 (outcome0 ''marquee'' Null 0)" tester0]
  by (auto simp: scenario_def)

subsection \<open>Inputs of any shape\<close>














text \<open>
  Claim C10. For every scan result with the four category sequences \<open>generateSummary\<close>
  returns a summary, and that summary carries the result's \<open>url\<close> and \<open>timestamp\<close> and the
  browser name of the tester.
\<close>

theorem summary_metadata:
  assumes "passes r = Some ps" and "violations r = Some vs"
    and "incomplete r = Some ics" and "inapplicable r = Some ias"
  shows "\<exists>s. generateSummary this r = Inr s
           \<and> s_url s = url r \<and> s_timestamp s = timestamp r \<and> s_browser s = browser this"
  using assms by (simp add: generateSummary_def)

theorem summary_metadata_witness:
  "passes scenario = Some (replicate 10 (outcome0 ''region'' Null 1))
   \<and> violations scenario = Some [outcome0 ''color-contrast'' (Str ''serious'') 4]
   \<and> incomplete scenario = Some []
   \<and> inapplicable scenario = Some (replicate 2 (outcome0 ''marquee'' Null 0))
   \<and> (\<exists>s. generateSummary tester0 scenario = Inr s
         \<and> s_url s = ''https://example.com/''
         \<and> s_timestamp s = ''2024-01-15T10:30:00.000Z''
         \<and> s_browser s = ''chromium'')"
  using summary_metadata [of scenario "replicate 10 (outcome0 ''region'' Null 1)"
      "[outcome0 ''color-contrast'' (Str ''serious'') 4]" "[]"
      "replicate 2 (outcome0 ''marquee'' Null 0)" tester0]
  by (auto simp: scenario_def tester0_def)

section \<open>Browser sessions are scoped\<close>


lemma quiet_ret [intro!]: "quiet (ret v)"
  by (simp add: quiet_def ret_def)


lemma quiet_lift [intro!]: "quiet (lift r)"
  by (simp add: quiet_def lift_def)

lemma quiet_get_self [intro!]: "quiet get_self"
  by (simp add: quiet_def get_self_def)

lemma quiet_set_self [intro!]: "quiet (set_self f)"
  by (simp add: quiet_def set_self_def)




lemma isl_await:
  "isl (fst (await x c s)) = (fst (exec x c (world s)) \<noteq> None)"
  by (simp add: await_def split: prod.splits option.splits)


























subsection \<open>Runs in the example host\<close>











section \<open>Properties of the HTML reports\<close>

subsection \<open>The affected elements of a violation\<close>

lemma digit_value_digits: "d < 10 \<Longrightarrow> digit_value (digits ! d) = d"
proof -
  assume "d < 10"
  then have "d \<in> {0, 1, 2, 3, 4, 5, 6, 7, 8, 9}" by auto
  then show ?thesis
    by (auto simp: digit_value_def digits_def)
qed

lemma decimal_value_snoc: "decimal_value (s @ [c]) = 10 * decimal_value s + digit_value c"
  by (simp add: decimal_value_def)

lemma decimal_value_number_toString: "decimal_value (number_toString n) = n"
proof (induction n rule: number_toString.induct)
  case (1 n)
  show ?case
  proof (cases "n < 10")
    case True
    then show ?thesis
      by (simp add: number_toString.simps [of n] decimal_value_def digit_value_digits)
  next
    case False
    with 1 have "decimal_value (number_toString (n div 10)) = n div 10" by simp
    with False show ?thesis
      by (simp add: number_toString.simps [of n] decimal_value_snoc digit_value_digits)
  qed
qed

lemma slice_take: "slice 0 n xs = take n xs"
  by (simp add: slice_def)

lemma affected_elements_block: "affected_elements v = affected_block v"
  by (simp add: affected_elements_def affected_block_def shown_targets_def more_indicator_def
      slice_take)

text \<open>
  Claim C9, as the code has it. For every violation the report renders, the
  affected-elements block, which is there when the violation has at least one node, shows
  the targets of the first three nodes at most, in order, each target joined by a space and
  the nodes separated by \<open><br>\<close>; the indicator \<open><br>... and N more\<close> follows exactly when
  the violation has more than three nodes, and \<open>N\<close> is the decimal text of the number of
  nodes minus three. The block is part of the violation's block in the document.
\<close>

theorem affected_elements_shape:
  "affected_elements v = affected_block v
   \<and> length (shown_targets v) = min 3 (length (nodes v))
   \<and> (\<forall>i < min 3 (length (nodes v)). shown_targets v ! i = join '' '' (target (nodes v ! i)))
   \<and> (more_indicator v \<noteq> [] \<longleftrightarrow> length (nodes v) > 3)
   \<and> (length (nodes v) > 3 \<longrightarrow>
        more_indicator v = ''<br>... and '' @ number_toString (length (nodes v) - 3) @ '' more''
        \<and> decimal_value (number_toString (length (nodes v) - 3)) = length (nodes v) - 3)
   \<and> (\<exists>before after. violation_block v = before @ affected_elements v @ after)"
proof -
  have "\<exists>before after. violation_block v = before @ affected_elements v @ after"
    unfolding violation_block_def
    by (metis append.assoc)
  then show ?thesis
    by (auto simp: affected_elements_block shown_targets_def more_indicator_def
        decimal_value_number_toString min_def)
qed

lemma number_toString_2 [simp]:
  "number_toString (Suc (Suc 0)) = ''2''" "number_toString 2 = ''2''"
proof -
  show "number_toString (Suc (Suc 0)) = ''2''"
    by (subst number_toString.simps) (simp add: digits_def)
  then show "number_toString 2 = ''2''"
    by (simp add: numeral_2_eq_2)
qed

lemma five_block:
  "affected_elements five_nodes =
     affected_1 @ ''#n1<br>iframe #n2<br>#n3'' @ affected_2 @ ''<br>... and 2 more'' @ affected_3"
  by (simp add: affected_elements_def five_nodes_def slice_def number_toString_2)

theorem affected_elements_shape_witness:
  "length (nodes five_nodes) = 5
   \<and> shown_targets five_nodes = [''#n1'', ''iframe #n2'', ''#n3'']
   \<and> more_indicator five_nodes = ''<br>... and 2 more''
   \<and> decimal_value ''2'' = 2
   \<and> affected_elements five_nodes =
       affected_1 @ ''#n1<br>iframe #n2<br>#n3'' @ affected_2 @ ''<br>... and 2 more'' @ affected_3"
  using affected_elements_shape [of five_nodes]
  by (simp add: five_nodes_def shown_targets_def more_indicator_def affected_block_def
      number_toString_2 decimal_value_def digit_value_def digits_def)

text \<open>
  Claim C9 as the specification words it names the indicator \<open>+N more\<close>. For a violation
  with five nodes the block holds \<open>... and 2 more\<close> and nowhere the text \<open>+2 more\<close>.
\<close>

theorem more_indicator_counterexample:
  "length (nodes five_nodes) = 5
   \<and> \<not> contains_text (affected_elements five_nodes) ''+2 more''
   \<and> contains_text (affected_elements five_nodes) ''<br>... and 2 more''"
  unfolding five_block
  by (simp add: five_nodes_def affected_1_def affected_2_def affected_3_def join_lines_def)

subsection \<open>Rendering and the clock\<close>

lemma written_files_append: "written_files (a @ b) = written_files a @ written_files b"
  by (induction a rule: written_files.induct) simp_all













end
